theory Spec2Isabelle
  imports Complex_Main "HOL-Library.Product_Lexorder" "HOL-Library.Sublist"
begin

section \<open>Data model\<close>

text \<open>
  The layout analyzer works on layoutparser values. A \<open>Rectangle\<close> has the four float fields
  \<open>x_1, y_1, x_2, y_2\<close>; a \<open>TextBlock\<close> wraps a rectangle (\<open>block\<close>) and carries a label
  (\<open>type\<close>) and a \<open>score\<close>, which \<open>BoxProtocol\<close> declares as a float. Its \<open>coordinates\<close>
  are those of the wrapped rectangle. Every block has a score, so the default of
  \<open>getattr(b, "score", 0.0)\<close> is never taken and the model reads the field. Python floats
  are modelled by the reals. The suppressor and the resolver compare and copy coordinates,
  and their theorems are about the geometry and the control flow. Where the text attacher
  computes coordinates, the rounding of each float operation is a parameter of the model.
  The methods of \<open>LayoutAnalyzer\<close> keep their names without the leading
  underscore, and without \<open>self\<close>: the object has no state that they read.
\<close>

record rectangle =
  x_1 :: real
  y_1 :: real
  x_2 :: real
  y_2 :: real

record textblock =
  block :: rectangle
  btype :: string
  score :: real

definition Rectangle :: "real \<Rightarrow> real \<Rightarrow> real \<Rightarrow> real \<Rightarrow> rectangle" where
  "Rectangle a b c d = \<lparr>x_1 = a, y_1 = b, x_2 = c, y_2 = d\<rparr>"

definition TextBlock :: "rectangle \<Rightarrow> string \<Rightarrow> real \<Rightarrow> textblock" where
  "TextBlock r t s = \<lparr>block = r, btype = t, score = s\<rparr>"

definition coordinates :: "textblock \<Rightarrow> real \<times> real \<times> real \<times> real" where
  "coordinates b = (x_1 (block b), y_1 (block b), x_2 (block b), y_2 (block b))"

text \<open>\<open>fitz.Rect\<close>: corners \<open>(x0, y0)\<close> and \<open>(x1, y1)\<close> of a rectangle on the page.\<close>

record fitz_rect =
  x0 :: real
  y0 :: real
  x1 :: real
  y1 :: real

text \<open>The exceptions the modelled methods can raise.\<close>

datatype error = ZeroDivisionError | AttributeError

text \<open>Python's true division of floats raises on a zero divisor.\<close>

definition py_div :: "real \<Rightarrow> real \<Rightarrow> error + real" where
  "py_div a b = (if b = 0 then Inl ZeroDivisionError else Inr (a / b))"

section \<open>Region geometry\<close>

definition box_area :: "textblock \<Rightarrow> real" where
  "box_area b = (case coordinates b of (x1', y1', x2', y2') \<Rightarrow>
     max 0 (x2' - x1') * max 0 (y2' - y1'))"

definition contains :: "textblock \<Rightarrow> textblock \<Rightarrow> int \<Rightarrow> bool" where
  "contains outer inner tol =
     (case coordinates outer of (ox1, oy1, ox2, oy2) \<Rightarrow>
      case coordinates inner of (ix1, iy1, ix2, iy2) \<Rightarrow>
        ix1 \<ge> ox1 - of_int tol \<and> iy1 \<ge> oy1 - of_int tol \<and>
        ix2 \<le> ox2 + of_int tol \<and> iy2 \<le> oy2 + of_int tol)"

text \<open>
  The area of the overlap rectangle, as both \<open>_iou\<close> and \<open>_containment_ratio\<close> compute it
  inline (\<open>inter_area\<close>).
\<close>

definition inter_area :: "textblock \<Rightarrow> textblock \<Rightarrow> real" where
  "inter_area el1 el2 =
     (case coordinates el1 of (x11, y11, x12, y12) \<Rightarrow>
      case coordinates el2 of (x21, y21, x22, y22) \<Rightarrow>
        let xi1 = max x11 x21; yi1 = max y11 y21;
            xi2 = min x12 x22; yi2 = min y12 y22;
            inter_w = max 0 (xi2 - xi1);
            inter_h = max 0 (yi2 - yi1)
        in inter_w * inter_h)"

definition union_area :: "textblock \<Rightarrow> textblock \<Rightarrow> real" where
  "union_area el1 el2 = box_area el1 + box_area el2 - inter_area el1 el2"

definition iou :: "textblock \<Rightarrow> textblock \<Rightarrow> error + real" where
  "iou el1 el2 =
     (if union_area el1 el2 > 0 then py_div (inter_area el1 el2) (union_area el1 el2)
      else Inr 0)"

definition containment_ratio :: "textblock \<Rightarrow> textblock \<Rightarrow> error + real" where
  "containment_ratio inner outer =
     (if box_area inner > 0 then py_div (inter_area inner outer) (box_area inner)
      else Inr 0)"

section \<open>Coordinate mapping\<close>

definition rect_to_image_xy :: "fitz_rect \<Rightarrow> real \<Rightarrow> real \<Rightarrow> real \<times> real \<times> real \<times> real" where
  "rect_to_image_xy rect page_height_pt scale =
     (let x1' = x0 rect * scale;
          y1' = (page_height_pt - y1 rect) * scale;
          x2' = x1 rect * scale;
          y2' = (page_height_pt - y0 rect) * scale
      in (x1', y1', x2', y2'))"

section \<open>Overlap resolution\<close>

definition rect_intersects :: "rectangle \<Rightarrow> rectangle \<Rightarrow> bool" where
  "rect_intersects r1 r2 =
     (let xi1 = max (x_1 r1) (x_1 r2);
          yi1 = max (y_1 r1) (y_1 r2);
          xi2 = min (x_2 r1) (x_2 r2);
          yi2 = min (y_2 r1) (y_2 r2)
      in (xi2 - xi1) > 0 \<and> (yi2 - yi1) > 0)"

text \<open>\<open>None\<close> is Python's \<open>None\<close>: nothing is left of \<open>src\<close>.\<close>

definition subtract_overlap :: "rectangle \<Rightarrow> rectangle \<Rightarrow> rectangle option" where
  "subtract_overlap src other =
     (if \<not> rect_intersects src other then Some src
      else
        let new_rect =
              (if y_1 src < y_1 other \<and> y_1 other < y_2 src
               then Rectangle (x_1 src) (y_1 src) (x_2 src) (y_1 other)
               else Rectangle (x_1 src) (y_2 other) (x_2 src) (y_2 src))
        in if (x_2 new_rect - x_1 new_rect) \<le> 0 \<or> (y_2 new_rect - y_1 new_rect) \<le> 0
           then None
           else Some new_rect)"

text \<open>
  The inner loop of \<open>_resolve_overlaps\<close>: the current rectangle is cut against the accepted
  blocks in their order; \<open>break\<close> with \<open>rect = None\<close> ends the loop at once.
\<close>

fun clip_against :: "rectangle \<Rightarrow> textblock list \<Rightarrow> rectangle option" where
  "clip_against rect [] = Some rect"
| "clip_against rect (accepted # rest) =
     (if rect_intersects rect (block accepted) then
        (case subtract_overlap rect (block accepted) of
           None \<Rightarrow> None
         | Some new_rect \<Rightarrow> clip_against new_rect rest)
      else clip_against rect rest)"

text \<open>The outer loop, with the list \<open>resolved\<close> as its state.\<close>

fun resolve_loop :: "textblock list \<Rightarrow> textblock list \<Rightarrow> textblock list" where
  "resolve_loop resolved [] = resolved"
| "resolve_loop resolved (blk # rest) =
     (case clip_against (block blk) resolved of
        None \<Rightarrow> resolve_loop resolved rest
      | Some rect \<Rightarrow> resolve_loop (resolved @ [TextBlock rect (btype blk) (score blk)]) rest)"

text \<open>
  layoutparser's \<open>area\<close> of a block is the width times the height of its rectangle.
  Python's \<open>sorted\<close> is stable, as \<open>sort_key\<close> is.
\<close>

definition area :: "textblock \<Rightarrow> real" where
  "area b = (x_2 (block b) - x_1 (block b)) * (y_2 (block b) - y_1 (block b))"

definition resolve_overlaps :: "textblock list \<Rightarrow> textblock list" where
  "resolve_overlaps layout = resolve_loop [] (sort_key area layout)"

text \<open>
  What a resolved block may differ in from the block it comes from: the same left and right
  edge, label and score, and a vertical extent inside the source's.
\<close>

definition clipped_from :: "textblock \<Rightarrow> textblock \<Rightarrow> bool" where
  "clipped_from out src =
     (x_1 (block out) = x_1 (block src) \<and> x_2 (block out) = x_2 (block src) \<and>
      y_1 (block src) \<le> y_1 (block out) \<and> y_2 (block out) \<le> y_2 (block src) \<and>
      btype out = btype src \<and> score out = score src)"

section \<open>Hierarchical suppression\<close>

definition sorted_by_score_then_area :: "textblock list \<Rightarrow> textblock list" where
  "sorted_by_score_then_area boxes = sort_key (\<lambda>b. (- score b, - box_area b)) boxes"

text \<open>
  \<open>_suppress_with_rules\<close>: the loop over \<open>selected\<close> returns \<open>True\<close> at the first selected
  box that makes the candidate redundant; \<open>or\<close> evaluates its operands from the left and
  stops at the first true one.
\<close>

fun suppress_with_rules ::
  "textblock list \<Rightarrow> textblock \<Rightarrow> real \<Rightarrow> real \<Rightarrow> int \<Rightarrow> error + bool" where
  "suppress_with_rules [] candidate const_thresh iou_thresh tol = Inr False"
| "suppress_with_rules (sel # rest) candidate const_thresh iou_thresh tol =
     (if contains sel candidate tol then Inr True
      else case containment_ratio candidate sel of
        Inl e \<Rightarrow> Inl e
      | Inr ratio \<Rightarrow>
          if ratio \<ge> const_thresh then Inr True
          else case iou candidate sel of
            Inl e \<Rightarrow> Inl e
          | Inr v \<Rightarrow>
              if v \<ge> iou_thresh then Inr True
              else suppress_with_rules rest candidate const_thresh iou_thresh tol)"

text \<open>
  \<open>_remove_superseded\<close> calls \<open>self._conflict\<close> for each selected box. The class
  \<open>LayoutAnalyzer\<close> has no attribute of that name, no base class and no \<open>__getattr__\<close>, and
  nothing in the repository assigns one: looking the attribute up raises \<open>AttributeError\<close>,
  whatever the arguments are.
\<close>

definition conflict ::
  "textblock \<Rightarrow> textblock \<Rightarrow> real \<Rightarrow> real \<Rightarrow> int \<Rightarrow> error + bool" where
  "conflict keeper sel const_thresh iou_thresh tol = Inl AttributeError"

text \<open>The list comprehension of \<open>_remove_superseded\<close>: the filter runs once per element.\<close>

fun remove_superseded ::
  "textblock list \<Rightarrow> textblock \<Rightarrow> real \<Rightarrow> real \<Rightarrow> int \<Rightarrow> error + textblock list" where
  "remove_superseded [] keeper const_thresh iou_thresh tol = Inr []"
| "remove_superseded (sel # rest) keeper const_thresh iou_thresh tol =
     (case conflict keeper sel const_thresh iou_thresh tol of
        Inl e \<Rightarrow> Inl e
      | Inr c \<Rightarrow>
          (case remove_superseded rest keeper const_thresh iou_thresh tol of
             Inl e \<Rightarrow> Inl e
           | Inr remain \<Rightarrow> Inr (if \<not> c then sel # remain else remain)))"

text \<open>The loop of \<open>_hierarchical_filter\<close> over the sorted candidates, with \<open>selected\<close> as state.\<close>

fun filter_loop ::
  "real \<Rightarrow> real \<Rightarrow> int \<Rightarrow> textblock list \<Rightarrow> textblock list \<Rightarrow> error + textblock list" where
  "filter_loop const_tresh iou_thresh tol selected [] = Inr selected"
| "filter_loop const_tresh iou_thresh tol selected (box # rest) =
     (case suppress_with_rules selected box const_tresh iou_thresh tol of
        Inl e \<Rightarrow> Inl e
      | Inr suppressed \<Rightarrow>
          if suppressed then filter_loop const_tresh iou_thresh tol selected rest
          else case remove_superseded selected box const_tresh iou_thresh tol of
            Inl e \<Rightarrow> Inl e
          | Inr selected' \<Rightarrow> filter_loop const_tresh iou_thresh tol (selected' @ [box]) rest)"

definition hierarchical_filter ::
  "textblock list \<Rightarrow> real \<Rightarrow> real \<Rightarrow> real \<Rightarrow> int \<Rightarrow> error + textblock list" where
  "hierarchical_filter layout min_score const_tresh iou_thresh tol =
     (let candidates = filter (\<lambda>b. score b \<ge> min_score) layout;
          candidates = sorted_by_score_then_area candidates
      in filter_loop const_tresh iou_thresh tol [] candidates)"

text \<open>
  The test of \<open>_suppress_with_rules\<close> for one selected box \<open>s\<close> and the candidate \<open>c\<close>:
  \<open>s\<close> contains \<open>c\<close> within the tolerance, or the containment ratio of \<open>c\<close> in \<open>s\<close> reaches
  its threshold, or their IoU reaches its threshold.
\<close>

definition reaches :: "error + real \<Rightarrow> real \<Rightarrow> bool" where
  "reaches res thresh = (case res of Inl e \<Rightarrow> False | Inr v \<Rightarrow> v \<ge> thresh)"

definition redundant_with :: "textblock \<Rightarrow> textblock \<Rightarrow> real \<Rightarrow> real \<Rightarrow> int \<Rightarrow> bool" where
  "redundant_with s c const_thresh iou_thresh tol =
     (contains s c tol \<or> reaches (containment_ratio c s) const_thresh
      \<or> reaches (iou c s) iou_thresh)"

section \<open>Text attachment\<close>

text \<open>
  A span of the page's text dictionary: its \<open>text\<close> entry, which may be missing, and its
  \<open>bbox\<close>. An entry of \<open>blocks\<close> is the dictionary with the keys \<open>text\<close>, \<open>bbox_px\<close> and
  \<open>type\<close> that \<open>analyze_page_with_resolved_text\<close> builds. The page gives its height and the
  spans, grouped in lines and these in blocks; a block without \<open>lines\<close> has none.
\<close>

record span =
  span_text :: "string option"
  span_bbox :: fitz_rect

record block_dict =
  blk_text :: string
  bbox_px :: "real \<times> real \<times> real \<times> real"
  blk_type :: string

record page =
  rect_height :: real
  text_blocks :: "span list list list"

text \<open>
  \<open>str.strip()\<close> removes the white space at both ends. Characters stand for the code
  points below 256, of which Python counts these as white space.
\<close>

definition is_space :: "char \<Rightarrow> bool" where
  "is_space c = (let n = (of_char c :: nat) in
     (9 \<le> n \<and> n \<le> 13) \<or> (28 \<le> n \<and> n \<le> 32) \<or> n = 133 \<or> n = 160)"

definition strip :: "string \<Rightarrow> string" where
  "strip s = rev (dropWhile is_space (rev (dropWhile is_space s)))"

definition Rectangle_of :: "real \<times> real \<times> real \<times> real \<Rightarrow> rectangle" where
  "Rectangle_of t = (case t of (a, b, c, d) \<Rightarrow> Rectangle a b c d)"

text \<open>
  A float operation gives the exact result rounded to a float. In the text attacher the
  rounding \<open>rnd\<close> is a parameter, and what is proved holds for every rounding, that of the
  machine among them. \<open>rect_to_image_xy_fl\<close> is \<open>_rect_to_image_xy\<close> with each of its
  operations rounded; with the identity as rounding it is \<open>rect_to_image_xy\<close>.
  \<open>to_px_flipped\<close> is the local function of \<open>_attach_text\<close>, which reads \<open>page_h_pt\<close>,
  \<open>page_h_px\<close> and \<open>scale\<close> from the enclosing call. The test of \<open>rect_intersects\<close> needs no
  rounding: the difference of two floats is positive as a float exactly when it is positive
  as a real.
\<close>

definition rect_to_image_xy_fl ::
  "(real \<Rightarrow> real) \<Rightarrow> fitz_rect \<Rightarrow> real \<Rightarrow> real \<Rightarrow> real \<times> real \<times> real \<times> real" where
  "rect_to_image_xy_fl rnd rect page_height_pt scale =
     (let x1' = rnd (x0 rect * scale);
          y1' = rnd (rnd (page_height_pt - y1 rect) * scale);
          x2' = rnd (x1 rect * scale);
          y2' = rnd (rnd (page_height_pt - y0 rect) * scale)
      in (x1', y1', x2', y2'))"

definition to_px_flipped ::
  "(real \<Rightarrow> real) \<Rightarrow> real \<Rightarrow> real \<Rightarrow> fitz_rect \<Rightarrow> rectangle" where
  "to_px_flipped rnd page_h_pt scale rect_pt =
     (let page_h_px = rnd (page_h_pt * scale) in
      case rect_to_image_xy_fl rnd rect_pt page_h_pt scale of (x1', y1', x2', y2') \<Rightarrow>
        Rectangle x1' (rnd (page_h_px - y2')) x2' (rnd (page_h_px - y1')))"

text \<open>The loop over \<open>blocks\<close> for one span: the first target that intersects gets the text.\<close>

fun attach_first :: "rectangle \<Rightarrow> string \<Rightarrow> block_dict list \<Rightarrow> block_dict list" where
  "attach_first span_rect_px txt [] = []"
| "attach_first span_rect_px txt (target # rest) =
     (if rect_intersects span_rect_px (Rectangle_of (bbox_px target))
      then target\<lparr>blk_text := blk_text target @ txt @ '' ''\<rparr> # rest
      else target # attach_first span_rect_px txt rest)"

definition attach_span ::
  "(real \<Rightarrow> real) \<Rightarrow> real \<Rightarrow> real \<Rightarrow> block_dict list \<Rightarrow> span \<Rightarrow> block_dict list" where
  "attach_span rnd page_h_pt scale blocks sp =
     (let txt = strip (case span_text sp of None \<Rightarrow> [] | Some t \<Rightarrow> t) in
      if txt = [] then blocks
      else attach_first (to_px_flipped rnd page_h_pt scale (span_bbox sp)) txt blocks)"

definition attach_text ::
  "(real \<Rightarrow> real) \<Rightarrow> block_dict list \<Rightarrow> page \<Rightarrow> real \<Rightarrow> block_dict list" where
  "attach_text rnd blocks pg scale =
     foldl (\<lambda>bs blk.
         foldl (\<lambda>bs ln. foldl (attach_span rnd (rect_height pg) scale) bs ln) bs blk)
       blocks (text_blocks pg)"

section \<open>Example inputs\<close>

text \<open>
  A block with a smaller, lower-scoring block inside it; two blocks far apart; a block that
  is the upper half of another; and a page with one span, whose text begins with a blank,
  over two target blocks.
\<close>

definition outer_box :: textblock where
  "outer_box = TextBlock (Rectangle 0 0 100 100) ''Text'' (9 / 10)"

definition nested_box :: textblock where
  "nested_box = TextBlock (Rectangle 10 10 50 50) ''Text'' (3 / 10)"

definition left_box :: textblock where
  "left_box = TextBlock (Rectangle 0 0 10 10) ''Text'' (9 / 10)"

definition right_box :: textblock where
  "right_box = TextBlock (Rectangle 20 20 30 30) ''Text'' (8 / 10)"

definition half_box :: textblock where
  "half_box = TextBlock (Rectangle 0 0 100 50) ''Title'' (1 / 2)"

definition top_span :: span where
  "top_span = \<lparr>span_text = Some '' a'', span_bbox = \<lparr>x0 = 0, y0 = 0, x1 = 10, y1 = 10\<rparr>\<rparr>"

definition one_span_page :: page where
  "one_span_page = \<lparr>rect_height = 100, text_blocks = [[[top_span]]]\<rparr>"

definition low_target :: block_dict where
  "low_target = \<lparr>blk_text = [], bbox_px = (0, 85, 10, 100), blk_type = ''Text''\<rparr>"

definition high_target :: block_dict where
  "high_target = \<lparr>blk_text = [], bbox_px = (0, 0, 10, 10), blk_type = ''Text''\<rparr>"

section \<open>Geometry: division is guarded\<close>

lemma box_area_nonneg: "0 \<le> box_area b"
  by (simp add: box_area_def coordinates_def)

lemma inter_area_nonneg: "0 \<le> inter_area a b"
  by (simp add: inter_area_def coordinates_def Let_def)

lemma inter_area_le_left: "inter_area a b \<le> box_area a"
  unfolding inter_area_def box_area_def coordinates_def Let_def prod.case
  by (intro mult_mono) auto

lemma inter_area_le_right: "inter_area a b \<le> box_area b"
  unfolding inter_area_def box_area_def coordinates_def Let_def prod.case
  by (intro mult_mono) auto

lemma union_area_nonneg: "0 \<le> union_area a b"
  using inter_area_le_left [of a b] box_area_nonneg [of b]
  by (simp add: union_area_def)

lemma iou_value:
  "iou r1 r2 = Inr (if union_area r1 r2 = 0 then 0 else inter_area r1 r2 / union_area r1 r2)"
  using union_area_nonneg [of r1 r2] by (auto simp: iou_def py_div_def)

lemma containment_ratio_value:
  "containment_ratio inner outer =
     Inr (if box_area inner = 0 then 0 else inter_area inner outer / box_area inner)"
  using box_area_nonneg [of inner] by (auto simp: containment_ratio_def py_div_def)

text \<open>
  C9. \<open>iou\<close> and \<open>containment_ratio\<close> never raise: each returns the quotient of the
  intersection area by the union area (respectively by the area of \<open>inner\<close>) when that
  divisor is not zero, and 0 when it is zero. The divisor is never negative, so these two
  cases are all there are, and the division is reached with a positive divisor only.
\<close>

theorem iou_containment_ratio_total:
  "iou r1 r2 = Inr (if union_area r1 r2 = 0 then 0 else inter_area r1 r2 / union_area r1 r2)
   \<and> union_area r1 r2 = box_area r1 + box_area r2 - inter_area r1 r2
   \<and> 0 \<le> union_area r1 r2
   \<and> containment_ratio inner outer =
       Inr (if box_area inner = 0 then 0 else inter_area inner outer / box_area inner)
   \<and> 0 \<le> box_area inner
   \<and> iou r1 r2 \<noteq> Inl ZeroDivisionError
   \<and> containment_ratio inner outer \<noteq> Inl ZeroDivisionError"
  using iou_value [of r1 r2] containment_ratio_value [of inner outer]
    union_area_nonneg [of r1 r2] box_area_nonneg [of inner]
  by (simp add: union_area_def)

section \<open>Coordinate mapping: the formula\<close>

text \<open>
  C6. \<open>rect_to_image_xy\<close> maps the page rectangle with corners \<open>(x0, y0)\<close>, \<open>(x1, y1)\<close> to
  \<open>(x0 * scale, (H - y1) * scale, x1 * scale, (H - y0) * scale)\<close>: the two x coordinates are
  scaled in their order, the two y coordinates are mirrored at the page height \<open>H\<close> and
  swapped.
\<close>

theorem rect_to_image_xy_formula:
  "rect_to_image_xy \<lparr>x0 = a, y0 = b, x1 = c, y1 = d\<rparr> H scale =
     (a * scale, (H - d) * scale, c * scale, (H - b) * scale)"
  by (simp add: rect_to_image_xy_def)

section \<open>Overlap resolution: clipping\<close>

lemma rect_intersects_sym: "rect_intersects a b = rect_intersects b a"
  by (auto simp: rect_intersects_def Let_def max_def min_def)

lemma subtract_overlap_result:
  assumes "rect_intersects src other" and "subtract_overlap src other = Some r"
  shows "x_1 r = x_1 src" and "x_2 r = x_2 src"
    and "y_1 src \<le> y_1 r" and "y_2 r \<le> y_2 src"
    and "\<not> rect_intersects r other"
  using assms
  by (auto simp: subtract_overlap_def rect_intersects_def Rectangle_def Let_def
           split: if_splits)

lemma rect_intersects_shrink:
  assumes "x_1 r = x_1 src" and "x_2 r = x_2 src"
    and "y_1 src \<le> y_1 r" and "y_2 r \<le> y_2 src"
    and "\<not> rect_intersects src a"
  shows "\<not> rect_intersects r a"
  using assms by (auto simp: rect_intersects_def Let_def)

lemma clip_against_result:
  "clip_against rect acc = Some r \<Longrightarrow>
     x_1 r = x_1 rect \<and> x_2 r = x_2 rect \<and> y_1 rect \<le> y_1 r \<and> y_2 r \<le> y_2 rect \<and>
     (\<forall>a \<in> set acc. \<not> rect_intersects r (block a))"
proof (induction acc arbitrary: rect)
  case Nil
  then show ?case by simp
next
  case (Cons a acc)
  show ?case
  proof (cases "rect_intersects rect (block a)")
    case True
    with Cons.prems obtain n where n: "subtract_overlap rect (block a) = Some n"
      and rest: "clip_against n acc = Some r"
      by (auto split: option.splits)
    note s = subtract_overlap_result [OF True n]
    note ih = Cons.IH [OF rest]
    have "\<not> rect_intersects r (block a)"
      using rect_intersects_shrink [of r n "block a"] ih s(5) by blast
    with ih s show ?thesis by auto
  next
    case False
    with Cons.prems have rest: "clip_against rect acc = Some r" by simp
    note ih = Cons.IH [OF rest]
    have "\<not> rect_intersects r (block a)"
      using rect_intersects_shrink [of r rect "block a"] ih False by blast
    with ih show ?thesis by auto
  qed
qed

lemma resolve_loop_disjoint:
  "sorted_wrt (\<lambda>a b. \<not> rect_intersects (block a) (block b)) resolved \<Longrightarrow>
   sorted_wrt (\<lambda>a b. \<not> rect_intersects (block a) (block b)) (resolve_loop resolved ordered)"
proof (induction ordered arbitrary: resolved)
  case Nil
  then show ?case by simp
next
  case (Cons blk rest)
  show ?case
  proof (cases "clip_against (block blk) resolved")
    case None
    with Cons show ?thesis by simp
  next
    case (Some rect)
    have "\<forall>a \<in> set resolved. \<not> rect_intersects (block a) rect"
      using clip_against_result [OF Some] rect_intersects_sym by blast
    then have "sorted_wrt (\<lambda>a b. \<not> rect_intersects (block a) (block b))
        (resolved @ [TextBlock rect (btype blk) (score blk)])"
      using Cons.prems by (simp add: sorted_wrt_append TextBlock_def)
    from Cons.IH [OF this] Some show ?thesis by simp
  qed
qed

lemma inter_area_zero_iff:
  "inter_area a b = 0 \<longleftrightarrow> \<not> rect_intersects (block a) (block b)"
  by (auto simp: inter_area_def rect_intersects_def coordinates_def Let_def max_def min_def)

lemma resolve_loop_frame:
  "\<exists>news srcs. resolve_loop resolved ordered = resolved @ news \<and> subseq srcs ordered \<and>
     list_all2 clipped_from news srcs"
proof (induction ordered arbitrary: resolved)
  case Nil
  show ?case by simp
next
  case (Cons blk rest)
  show ?case
  proof (cases "clip_against (block blk) resolved")
    case None
    from Cons.IH [of resolved] obtain news srcs where
      "resolve_loop resolved rest = resolved @ news" "subseq srcs rest"
      "list_all2 clipped_from news srcs" by blast
    with None show ?thesis by (auto intro: subseq_Cons')
  next
    case (Some rect)
    let ?b = "TextBlock rect (btype blk) (score blk)"
    from Cons.IH [of "resolved @ [?b]"] obtain news srcs where
      r: "resolve_loop (resolved @ [?b]) rest = (resolved @ [?b]) @ news"
      and s: "subseq srcs rest" and l: "list_all2 clipped_from news srcs" by blast
    have c: "clipped_from ?b blk"
      using clip_against_result [OF Some] by (simp add: clipped_from_def TextBlock_def)
    have "resolve_loop resolved (blk # rest) = resolved @ (?b # news)"
      using Some r by simp
    moreover have "subseq (blk # srcs) (blk # rest)" using s by simp
    moreover have "list_all2 clipped_from (?b # news) (blk # srcs)" using c l by simp
    ultimately show ?thesis by blast
  qed
qed

text \<open>
  C2. Any two regions at different positions of the output of \<open>resolve_overlaps\<close> have
  intersection area 0.
\<close>

theorem resolve_overlaps_disjoint:
  assumes "i < length (resolve_overlaps layout)" and "j < length (resolve_overlaps layout)"
    and "i \<noteq> j"
  shows "inter_area (resolve_overlaps layout ! i) (resolve_overlaps layout ! j) = 0"
proof -
  let ?out = "resolve_overlaps layout"
  let ?P = "\<lambda>a b. \<not> rect_intersects (block a) (block b)"
  have sw: "sorted_wrt ?P ?out"
    unfolding resolve_overlaps_def by (rule resolve_loop_disjoint) simp
  have lt: "?P (?out ! m) (?out ! n)" if "m < n" "n < length ?out" for m n
    using sw that by (simp add: sorted_wrt_iff_nth_less)
  have "?P (?out ! i) (?out ! j)"
  proof (cases "i < j")
    case True
    then show ?thesis using lt assms(2) by blast
  next
    case False
    with assms(3) have "j < i" by simp
    then have "?P (?out ! j) (?out ! i)" using lt assms(1) by blast
    then show ?thesis using rect_intersects_sym by blast
  qed
  then show ?thesis by (simp add: inter_area_zero_iff)
qed

text \<open>
  C10. The output of \<open>resolve_overlaps\<close> is, position by position, a clipped copy of a
  subsequence of the blocks in processing order: each output block has the left and right
  edge, the label and the score of its source, and a vertical extent inside the source's.
  In particular every output block comes from a block of the input in this way.
\<close>

theorem resolve_overlaps_frame:
  "(\<exists>srcs. subseq srcs (sort_key area layout) \<and>
      list_all2 clipped_from (resolve_overlaps layout) srcs)
   \<and> (\<forall>out \<in> set (resolve_overlaps layout). \<exists>src \<in> set layout. clipped_from out src)"
proof -
  from resolve_loop_frame [of "[]" "sort_key area layout"] obtain srcs where
    s: "subseq srcs (sort_key area layout)"
    and l: "list_all2 clipped_from (resolve_overlaps layout) srcs"
    by (auto simp: resolve_overlaps_def)
  have "\<exists>src \<in> set layout. clipped_from out src" if "out \<in> set (resolve_overlaps layout)" for out
  proof -
    from that l obtain src where src: "src \<in> set srcs" "clipped_from out src"
      by (metis in_set_conv_nth list_all2_conv_all_nth)
    from list_emb_set [OF s src(1)] have "src \<in> set (sort_key area layout)" by blast
    then have "src \<in> set layout" by simp
    with src(2) show ?thesis by blast
  qed
  with s l show ?thesis by blast
qed

lemmas geometry_defs =
  TextBlock_def Rectangle_def coordinates_def box_area_def contains_def inter_area_def
  union_area_def iou_def containment_ratio_def py_div_def reaches_def rect_intersects_def
  subtract_overlap_def area_def

lemmas example_defs =
  outer_box_def nested_box_def left_box_def right_box_def half_box_def
  top_span_def one_span_page_def low_target_def high_target_def

lemma resolve_overlaps_example:
  "resolve_overlaps [outer_box, half_box] =
     [half_box, TextBlock (Rectangle 0 50 100 100) ''Text'' (9 / 10)]"
  by (simp add: resolve_overlaps_def example_defs geometry_defs)

theorem resolve_overlaps_disjoint_witness:
  "(0::nat) < length (resolve_overlaps [outer_box, half_box])
   \<and> (1::nat) < length (resolve_overlaps [outer_box, half_box])
   \<and> inter_area (resolve_overlaps [outer_box, half_box] ! 0)
        (resolve_overlaps [outer_box, half_box] ! 1) = 0"
  using resolve_overlaps_disjoint [of 0 "[outer_box, half_box]" 1]
  by (simp add: resolve_overlaps_example)

theorem resolve_overlaps_frame_witness:
  "TextBlock (Rectangle 0 50 100 100) ''Text'' (9 / 10) \<in> set (resolve_overlaps [outer_box, half_box])
   \<and> (\<exists>src \<in> set [outer_box, half_box].
         clipped_from (TextBlock (Rectangle 0 50 100 100) ''Text'' (9 / 10)) src)"
proof -
  have m: "TextBlock (Rectangle 0 50 100 100) ''Text'' (9 / 10)
      \<in> set (resolve_overlaps [outer_box, half_box])"
    by (simp add: resolve_overlaps_example)
  from resolve_overlaps_frame [of "[outer_box, half_box]"] m show ?thesis by blast
qed

text \<open>
  C8. Let \<open>r\<close> intersect the accepted block \<open>a\<close>. The rectangle cut from \<open>r\<close> is
  \<open>[r.x1, r.y1, r.x2, a.y1]\<close> if \<open>r.y1 < a.y1 < r.y2\<close> and \<open>[r.x1, a.y2, r.x2, r.y2]\<close>
  otherwise. If it has a non-positive width or height, \<open>subtract_overlap\<close> returns \<open>None\<close>,
  the inner loop ends with \<open>None\<close> whatever accepted blocks follow, and the outer loop goes
  on without adding a block. Otherwise the inner loop goes on with the cut rectangle, whose
  width and height are positive. The first cut is never dropped; the second is dropped
  exactly when \<open>r.y2 \<le> a.y2\<close>.
\<close>

theorem subtract_overlap_clip:
  assumes "rect_intersects r (block a)"
    and "c = (if y_1 r < y_1 (block a) \<and> y_1 (block a) < y_2 r
              then Rectangle (x_1 r) (y_1 r) (x_2 r) (y_1 (block a))
              else Rectangle (x_1 r) (y_2 (block a)) (x_2 r) (y_2 r))"
  shows "(x_2 c - x_1 c \<le> 0 \<or> y_2 c - y_1 c \<le> 0 \<longrightarrow>
            subtract_overlap r (block a) = None \<and> clip_against r (a # rest) = None \<and>
            (block blk = r \<longrightarrow>
               resolve_loop (a # rest) (blk # later) = resolve_loop (a # rest) later))
       \<and> (\<not> (x_2 c - x_1 c \<le> 0 \<or> y_2 c - y_1 c \<le> 0) \<longrightarrow>
            subtract_overlap r (block a) = Some c \<and>
            clip_against r (a # rest) = clip_against c rest)
       \<and> ((x_2 c - x_1 c \<le> 0 \<or> y_2 c - y_1 c \<le> 0) \<longleftrightarrow>
            \<not> (y_1 r < y_1 (block a) \<and> y_1 (block a) < y_2 r) \<and> y_2 r \<le> y_2 (block a))"
  using assms
  by (auto simp: subtract_overlap_def rect_intersects_def Rectangle_def Let_def)

theorem subtract_overlap_clip_witness:
  "rect_intersects (block half_box) (block half_box)
   \<and> subtract_overlap (block half_box) (block half_box) = None
   \<and> clip_against (block half_box) [half_box, outer_box] = None
   \<and> resolve_loop [half_box, outer_box] [half_box, nested_box] =
       resolve_loop [half_box, outer_box] [nested_box]"
  using subtract_overlap_clip [of "block half_box" half_box "Rectangle 0 50 100 50"
      "[outer_box]" half_box "[nested_box]"]
  by (simp add: half_box_def TextBlock_def Rectangle_def rect_intersects_def)

section \<open>Hierarchical suppression: the loop\<close>

lemma suppress_with_rules_value:
  "suppress_with_rules selected c ct it tol =
     Inr (\<exists>s \<in> set selected. redundant_with s c ct it tol)"
proof (induction selected)
  case Nil
  show ?case by simp
next
  case (Cons s selected)
  obtain r where r: "containment_ratio c s = Inr r"
    using containment_ratio_value [of c s] by blast
  obtain v where v: "iou c s = Inr v"
    using iou_value [of c s] by blast
  show ?case using Cons.IH r v
    by (auto simp: redundant_with_def reaches_def)
qed

lemma sorted_by_score_then_area_order:
  assumes "i < j" and "j < length (sorted_by_score_then_area xs)"
  shows "score (sorted_by_score_then_area xs ! j) < score (sorted_by_score_then_area xs ! i) \<or>
         score (sorted_by_score_then_area xs ! j) = score (sorted_by_score_then_area xs ! i) \<and>
         box_area (sorted_by_score_then_area xs ! j) \<le> box_area (sorted_by_score_then_area xs ! i)"
proof -
  let ?k = "\<lambda>b. (- score b, - box_area b)"
  let ?s = "sorted_by_score_then_area xs"
  have "sorted (map ?k ?s)"
    by (simp add: sorted_by_score_then_area_def)
  then have "map ?k ?s ! i \<le> map ?k ?s ! j"
    using assms by (simp add: sorted_iff_nth_mono del: map_map)
  then have "?k (?s ! i) \<le> ?k (?s ! j)" using assms by simp
  then show ?thesis by (auto simp: less_eq_prod_def)
qed

text \<open>
  With one selected box the loop either keeps it, when every further candidate is redundant
  with it, or raises: the first candidate that is not redundant reaches
  \<open>remove_superseded\<close> with a non-empty \<open>selected\<close>.
\<close>

lemma filter_loop_single:
  "filter_loop ct it tol [s] cands =
     (if \<forall>c \<in> set cands. redundant_with s c ct it tol then Inr [s] else Inl AttributeError)"
  by (induction cands) (simp_all add: suppress_with_rules_value conflict_def)




text \<open>
  How far the missing method reaches: a run of the filter that returns has kept at most one
  region.
\<close>

lemma hierarchical_filter_returns_at_most_one:
  assumes "hierarchical_filter layout ms ct it tol = Inr out"
  shows "length out \<le> 1"
proof (cases "sorted_by_score_then_area (filter (\<lambda>b. score b \<ge> ms) layout)")
  case Nil
  with assms show ?thesis by (simp add: hierarchical_filter_def)
next
  case (Cons c rest)
  with assms show ?thesis
    by (auto simp: hierarchical_filter_def filter_loop_single split: if_splits)
qed

text \<open>
  C1. Two candidates far apart, both above the minimal score: the second one is not
  discarded by the suppression test, and the filter does not complete. It raises
  \<open>AttributeError\<close> in \<open>remove_superseded\<close>, nothing is removed and the candidate is not
  appended.
\<close>

theorem hierarchical_filter_raises:
  "suppress_with_rules [left_box] right_box (9 / 10) (4 / 10) 0 = Inr False
   \<and> remove_superseded [left_box] right_box (9 / 10) (4 / 10) 0 = Inl AttributeError
   \<and> hierarchical_filter [left_box, right_box] (2 / 10) (9 / 10) (4 / 10) 0 = Inl AttributeError"
  by (simp add: hierarchical_filter_def sorted_by_score_then_area_def conflict_def
      left_box_def right_box_def geometry_defs)

text \<open>
  C5. \<open>suppress_with_rules\<close> returns \<open>True\<close> exactly when some selected box \<open>s\<close> contains
  the candidate \<open>c\<close> within \<open>tol\<close>, or the containment ratio of \<open>c\<close> in \<open>s\<close> reaches its
  threshold, or the IoU of \<open>c\<close> and \<open>s\<close> reaches its threshold. The loop of the filter skips
  \<open>c\<close> and keeps \<open>selected\<close> as it is in exactly that case, and otherwise goes on to
  \<open>remove_superseded\<close>. The loop runs over the candidates above the minimal score in the
  order of \<open>sorted_by_score_then_area\<close>: by falling score and, at equal score, by falling
  area.
\<close>

theorem suppress_with_rules_iff:
  "suppress_with_rules selected c ct it tol =
     Inr (\<exists>s \<in> set selected. contains s c tol \<or> reaches (containment_ratio c s) ct
            \<or> reaches (iou c s) it)
   \<and> filter_loop ct it tol selected (c # rest) =
       (if \<exists>s \<in> set selected. contains s c tol \<or> reaches (containment_ratio c s) ct
              \<or> reaches (iou c s) it
        then filter_loop ct it tol selected rest
        else case remove_superseded selected c ct it tol of
               Inl e \<Rightarrow> Inl e
             | Inr selected' \<Rightarrow> filter_loop ct it tol (selected' @ [c]) rest)
   \<and> hierarchical_filter layout ms ct it tol =
       filter_loop ct it tol [] (sorted_by_score_then_area (filter (\<lambda>b. score b \<ge> ms) layout))
   \<and> (i < j \<and> j < length (sorted_by_score_then_area xs) \<longrightarrow>
         score (sorted_by_score_then_area xs ! j) < score (sorted_by_score_then_area xs ! i) \<or>
         score (sorted_by_score_then_area xs ! j) = score (sorted_by_score_then_area xs ! i) \<and>
         box_area (sorted_by_score_then_area xs ! j) \<le> box_area (sorted_by_score_then_area xs ! i))"
proof -
  have s: "suppress_with_rules selected c ct it tol =
     Inr (\<exists>s \<in> set selected. contains s c tol \<or> reaches (containment_ratio c s) ct
            \<or> reaches (iou c s) it)"
    using suppress_with_rules_value [of selected c ct it tol] by (simp add: redundant_with_def)
  have l: "filter_loop ct it tol selected (c # rest) =
       (if \<exists>s \<in> set selected. contains s c tol \<or> reaches (containment_ratio c s) ct
              \<or> reaches (iou c s) it
        then filter_loop ct it tol selected rest
        else case remove_superseded selected c ct it tol of
               Inl e \<Rightarrow> Inl e
             | Inr selected' \<Rightarrow> filter_loop ct it tol (selected' @ [c]) rest)"
    by (simp add: s)
  have h: "hierarchical_filter layout ms ct it tol =
       filter_loop ct it tol [] (sorted_by_score_then_area (filter (\<lambda>b. score b \<ge> ms) layout))"
    by (simp add: hierarchical_filter_def)
  show ?thesis using s l h sorted_by_score_then_area_order [of i j xs] by blast
qed

theorem suppress_with_rules_iff_witness:
  "outer_box \<in> set [outer_box] \<and> contains outer_box nested_box 0
   \<and> suppress_with_rules [outer_box] nested_box (9 / 10) (4 / 10) 0 = Inr True
   \<and> filter_loop (9 / 10) (4 / 10) 0 [outer_box] [nested_box] = Inr [outer_box]
   \<and> sorted_by_score_then_area [nested_box, outer_box] = [outer_box, nested_box]"
  using suppress_with_rules_iff [of "[outer_box]" nested_box "9 / 10" "4 / 10" 0 "[]"
      "[nested_box, outer_box]" "2 / 10" 0 1 "[nested_box, outer_box]"]
  by (simp add: sorted_by_score_then_area_def outer_box_def nested_box_def geometry_defs)




text \<open>
  C4. The filter has no output to be applied to again as soon as two regions are to be
  kept. Of the two boxes neither makes the other redundant: the second passes the
  suppression test against the first, and the same three tests in the opposite direction
  would evict nothing. Both are to be selected, and selecting them again is to give the
  same two. The filter, here with the parameters of \<open>analyze_page_with_resolved_text\<close>,
  raises \<open>AttributeError\<close> when it accepts the second.
\<close>

theorem hierarchical_filter_no_output:
  "\<not> redundant_with left_box right_box (8 / 10) (9 / 10) 2
   \<and> \<not> redundant_with right_box left_box (8 / 10) (9 / 10) 2
   \<and> sorted_by_score_then_area (filter (\<lambda>b. score b \<ge> 5 / 100) [right_box, left_box]) =
       [left_box, right_box]
   \<and> hierarchical_filter [right_box, left_box] (5 / 100) (8 / 10) (9 / 10) 2 = Inl AttributeError"
  by (simp add: hierarchical_filter_def sorted_by_score_then_area_def conflict_def
      redundant_with_def left_box_def right_box_def geometry_defs)

section \<open>Text attachment: the first match\<close>

lemma rect_to_image_xy_fl_id: "rect_to_image_xy_fl id rect H scale = rect_to_image_xy rect H scale"
  by (simp add: rect_to_image_xy_fl_def rect_to_image_xy_def)

lemma attach_first_none:
  "\<forall>t \<in> set blocks. \<not> rect_intersects R (Rectangle_of (bbox_px t)) \<Longrightarrow>
   attach_first R s blocks = blocks"
  by (induction blocks) simp_all

lemma attach_first_hit:
  "i < length blocks \<Longrightarrow> rect_intersects R (Rectangle_of (bbox_px (blocks ! i))) \<Longrightarrow>
   \<forall>j < i. \<not> rect_intersects R (Rectangle_of (bbox_px (blocks ! j))) \<Longrightarrow>
   attach_first R s blocks =
     blocks[i := (blocks ! i)\<lparr>blk_text := blk_text (blocks ! i) @ s @ '' ''\<rparr>]"
proof (induction blocks arbitrary: i)
  case Nil
  then show ?case by simp
next
  case (Cons t blocks)
  show ?case
  proof (cases i)
    case 0
    with Cons.prems show ?thesis by simp
  next
    case (Suc k)
    with Cons.prems have "\<not> rect_intersects R (Rectangle_of (bbox_px t))" by auto
    moreover have "attach_first R s blocks =
        blocks[k := (blocks ! k)\<lparr>blk_text := blk_text (blocks ! k) @ s @ '' ''\<rparr>]"
      using Cons.prems Suc by (intro Cons.IH) auto
    ultimately show ?thesis using Suc by simp
  qed
qed

lemma attach_text_spans:
  "attach_text rnd blocks pg scale =
     foldl (attach_span rnd (rect_height pg) scale) blocks (concat (concat (text_blocks pg)))"
proof -
  have inner: "foldl (\<lambda>bs ln. foldl f bs ln) bs lns = foldl f bs (concat lns)"
    for f :: "block_dict list \<Rightarrow> span \<Rightarrow> block_dict list" and bs lns
    by (induction lns arbitrary: bs) simp_all
  have outer: "foldl (\<lambda>bs blk. foldl f bs (concat blk)) bs blks = foldl f bs (concat (concat blks))"
    for f :: "block_dict list \<Rightarrow> span \<Rightarrow> block_dict list" and bs blks
    by (induction blks arbitrary: bs) simp_all
  show ?thesis by (simp add: attach_text_def inner outer)
qed

text \<open>
  C7, as the claim states it, fails. The page is 100 points high and the scale is 1; all
  numbers are small integers, on which the float operations are exact (the rounding is the
  identity). The span at the top of the page, \<open>(0, 0, 10, 10)\<close> with the text \<open>" a"\<close>, is
  mapped by \<open>rect_to_image_xy\<close> to \<open>(0, 90, 10, 100)\<close>, which intersects the first target,
  \<open>(0, 85, 10, 100)\<close>. The first target gets nothing. The second target,
  \<open>(0, 0, 10, 10)\<close>, gets \<open>"a "\<close>: the stripped text and a blank, not the span's text and a
  blank.
\<close>

theorem attach_text_not_coordinate_mapper:
  "rect_intersects
     (Rectangle_of (rect_to_image_xy (span_bbox top_span) (rect_height one_span_page) 1))
     (Rectangle_of (bbox_px low_target))
   \<and> span_text top_span = Some '' a''
   \<and> attach_text id [low_target, high_target] one_span_page 1 =
       [low_target, high_target\<lparr>blk_text := ''a ''\<rparr>]"
  by (simp add: example_defs attach_text_def attach_span_def strip_def is_space_def
      to_px_flipped_def rect_to_image_xy_fl_def rect_to_image_xy_def Rectangle_of_def
      Rectangle_def rect_intersects_def)

text \<open>
  C7, amended. The rectangle \<open>R\<close> that is tested against the targets is the result of
  \<open>to_px_flipped\<close>: the result \<open>(x1', y1', x2', y2')\<close> of the coordinate mapping, mirrored
  again at the page's pixel height \<open>page_h_px\<close>, that is
  \<open>(x1', page_h_px - y2', x2', page_h_px - y1')\<close>. Let \<open>s\<close> be the span's text stripped of
  white space at both ends. If \<open>s\<close> is empty, or \<open>R\<close> intersects no target, the span changes
  nothing. Otherwise \<open>s\<close> and a blank are appended to the text of the first target that
  intersects \<open>R\<close>, and nothing else changes. \<open>attach_text\<close> does this for the spans of the
  page one after the other. All of this holds whatever the rounding of the float operations
  is.
\<close>

theorem attach_span_first_match:
  assumes "s = strip (case span_text sp of None \<Rightarrow> [] | Some t \<Rightarrow> t)"
    and "R = to_px_flipped rnd H scale (span_bbox sp)"
  shows "R = (case rect_to_image_xy_fl rnd (span_bbox sp) H scale of (x1', y1', x2', y2') \<Rightarrow>
               Rectangle x1' (rnd (rnd (H * scale) - y2')) x2' (rnd (rnd (H * scale) - y1')))
    \<and> (s = [] \<longrightarrow> attach_span rnd H scale blocks sp = blocks)
    \<and> (s \<noteq> [] \<longrightarrow> (\<forall>t \<in> set blocks. \<not> rect_intersects R (Rectangle_of (bbox_px t))) \<longrightarrow>
         attach_span rnd H scale blocks sp = blocks)
    \<and> (s \<noteq> [] \<and> i < length blocks \<and>
         rect_intersects R (Rectangle_of (bbox_px (blocks ! i))) \<and>
         (\<forall>j < i. \<not> rect_intersects R (Rectangle_of (bbox_px (blocks ! j)))) \<longrightarrow>
         attach_span rnd H scale blocks sp =
           blocks[i := (blocks ! i)\<lparr>blk_text := blk_text (blocks ! i) @ s @ '' ''\<rparr>])
    \<and> attach_text rnd blocks pg scale =
         foldl (attach_span rnd (rect_height pg) scale) blocks (concat (concat (text_blocks pg)))"
proof -
  have r: "R = (case rect_to_image_xy_fl rnd (span_bbox sp) H scale of (x1', y1', x2', y2') \<Rightarrow>
               Rectangle x1' (rnd (rnd (H * scale) - y2')) x2' (rnd (rnd (H * scale) - y1')))"
    using assms(2) by (simp add: to_px_flipped_def Let_def)
  have a: "attach_span rnd H scale blocks sp =
      (if s = [] then blocks else attach_first R s blocks)"
    using assms by (simp add: attach_span_def Let_def)
  show ?thesis
    using r a attach_first_none [of blocks R s] attach_first_hit [of i blocks R s]
      attach_text_spans [of rnd blocks pg scale]
    by simp
qed

theorem attach_span_first_match_witness:
  "strip '' a'' = ''a''
   \<and> to_px_flipped id 100 1 (span_bbox top_span) = Rectangle 0 0 10 10
   \<and> rect_intersects (Rectangle 0 0 10 10) (Rectangle_of (bbox_px ([low_target, high_target] ! 1)))
   \<and> \<not> rect_intersects (Rectangle 0 0 10 10) (Rectangle_of (bbox_px ([low_target, high_target] ! 0)))
   \<and> attach_span id 100 1 [low_target, high_target] top_span =
       [low_target, high_target\<lparr>blk_text := ''a ''\<rparr>]"
  using attach_span_first_match [of "''a''" top_span "Rectangle 0 0 10 10" id 100 1
      "[low_target, high_target]" 1 one_span_page]
  by (simp add: example_defs strip_def is_space_def to_px_flipped_def rect_to_image_xy_fl_def
      Rectangle_of_def Rectangle_def rect_intersects_def)

end
